theory Spec2Isabelle
  imports Main "HOL-Library.Sublist"
begin

section \<open>The issue reporter model (issueReporterModel.ts)\<close>

text \<open>
  The class \<open>IssueReporterModel\<close> owns one mutable record \<open>_data\<close> of type
  \<open>IssueReporterData\<close> and renders it into a Markdown issue body. The embedding below
  follows the TypeScript source function by function. The object is its record: a method
  that reads takes the record, a method that writes returns the new record.

  Conventions of the embedding:
  \<^item> an optional field \<open>x?: T\<close> is \<open>T option\<close>, \<open>None\<close> being JavaScript's \<open>undefined\<close>;
  \<^item> a string is a \<open>string\<close>, one \<open>char\<close> per code unit, the line break of a template
    literal being the character \<open>\<newline>\<close>;
  \<^item> the fields typed \<open>any\<close> that hold text (\<open>processInfo\<close>, \<open>workspaceInfo\<close>) are
    optional strings, and \<open>versionInfo\<close> is an optional record of two strings;
  \<^item> a \<open>number\<close> that the specification calls an integer is an \<open>int\<close>, rendered in
    decimal (what JavaScript prints for every integer of magnitude below \<open>10^21\<close>).
\<close>

subsection \<open>Imported declarations\<close>

text \<open>
  Modelled from the spec: the enumeration \<open>IssueType\<close> of \<open>vs/platform/issue/common/issue\<close>,
  which the specification gives as \<open>enum{Bug, PerformanceIssue, FeatureRequest}\<close>.
\<close>

datatype IssueType = Bug | PerformanceIssue | FeatureRequest

text \<open>
  Modelled from the spec: the extension descriptor \<open>IssueReporterExtensionData\<close> of
  \<open>vs/platform/issue/common/issue\<close>, "extension descriptors (name, publisher, version)".
\<close>

record IssueReporterExtensionData =
  name :: string
  publisher :: string
  version :: string

text \<open>
  Modelled from the spec: \<open>ISettingSearchResult\<close> of \<open>vs/platform/issue/common/issue\<close>,
  "search-result bookkeeping" that no method of the class looks into. It stays opaque.
\<close>

typedecl ISettingSearchResult

text \<open>
  Modelled from the spec: the value of \<open>versionInfo\<close>, "structured record
  {editorVersion, osVersion}", with the two property names \<open>serialize\<close> reads.
\<close>

record VersionInfo =
  vscodeVersion :: string
  os :: string

text \<open>
  Modelled from the spec: the diagnostics types of
  \<open>vs/platform/diagnostics/common/diagnostics\<close>. A remote entry is "either an error
  message or a machine-info record (hostName, os, cpus, memory, vmHint)", and the
  specification asks for a tagged union of the two cases; \<open>isRemoteDiagnosticError\<close>, the
  "discriminant check supplied externally", is the test for the first case.
  \<open>gpuStatus\<close> is a mapping whose keys are enumerated in insertion order: an association
  list.
\<close>

record MachineInfo =
  os :: string
  cpus :: string
  memory :: string
  vmHint :: string

datatype RemoteDiagnostic =
  RemoteDiagnosticError (hostName: string) (errorMessage: string)
| RemoteDiagnosticInfo (hostName: string) (machineInfo: MachineInfo)

fun isRemoteDiagnosticError :: "RemoteDiagnostic \<Rightarrow> bool" where
  "isRemoteDiagnosticError (RemoteDiagnosticError h m) = True"
| "isRemoteDiagnosticError (RemoteDiagnosticInfo h m) = False"

record LinuxEnv =
  desktopSession :: string
  xdgCurrentDesktop :: string
  xdgSessionDesktop :: string
  xdgSessionType :: string

record SystemInfo =
  cpus :: string
  gpuStatus :: "(string \<times> string) list"
  load :: string
  memory :: string
  processArgs :: string
  screenReader :: string
  vmHint :: string
  linuxEnv :: "LinuxEnv option"
  remoteData :: "RemoteDiagnostic list"

subsection \<open>The record\<close>

text \<open>The interface \<open>IssueReporterData\<close>, with the spelling of the source's field names.\<close>

record IssueReporterData =
  issueType :: IssueType
  issueDescription :: "string option"
  versionInfo :: "VersionInfo option"
  systemInfo :: "SystemInfo option"
  processInfo :: "string option"
  workspaceInfo :: "string option"
  includeSystemInfo :: bool
  includeWorkspaceInfo :: bool
  includeProcessInfo :: bool
  includeExtensions :: bool
  includeSearchedExtensions :: bool
  includeSettingsSearchDetails :: bool
  numberOfThemeExtesions :: "int option"
  allExtensions :: "IssueReporterExtensionData list"
  enabledNonThemeExtesions :: "IssueReporterExtensionData list option"
  extensionsDisabled :: "bool option"
  fileOnExtension :: "bool option"
  selectedExtension :: "IssueReporterExtensionData option"
  actualSearchResults :: "ISettingSearchResult list option"
  query :: "string option"
  filterResultCount :: "int option"

text \<open>
  \<open>Partial<IssueReporterData>\<close>: every key may be missing. \<open>None\<close> is a key that the
  object does not have; \<open>Some v\<close> is a key it has, with the value \<open>v\<close> of the field's
  type, so that for an optional field \<open>Some None\<close> is the key present with the value
  \<open>undefined\<close>. A field that \<open>IssueReporterData\<close> requires is never given \<open>undefined\<close>:
  the type of the record excludes it.
\<close>

record PartialData =
  p_issueType :: "IssueType option"
  p_issueDescription :: "string option option"
  p_versionInfo :: "VersionInfo option option"
  p_systemInfo :: "SystemInfo option option"
  p_processInfo :: "string option option"
  p_workspaceInfo :: "string option option"
  p_includeSystemInfo :: "bool option"
  p_includeWorkspaceInfo :: "bool option"
  p_includeProcessInfo :: "bool option"
  p_includeExtensions :: "bool option"
  p_includeSearchedExtensions :: "bool option"
  p_includeSettingsSearchDetails :: "bool option"
  p_numberOfThemeExtesions :: "int option option"
  p_allExtensions :: "IssueReporterExtensionData list option"
  p_enabledNonThemeExtesions :: "IssueReporterExtensionData list option option"
  p_extensionsDisabled :: "bool option option"
  p_fileOnExtension :: "bool option option"
  p_selectedExtension :: "IssueReporterExtensionData option option"
  p_actualSearchResults :: "ISettingSearchResult list option option"
  p_query :: "string option option"
  p_filterResultCount :: "int option option"

text \<open>The object literal \<open>{}\<close>: no key at all.\<close>

definition noKeys :: PartialData where
  "noKeys =
     \<lparr>p_issueType = None, p_issueDescription = None, p_versionInfo = None,
      p_systemInfo = None, p_processInfo = None, p_workspaceInfo = None,
      p_includeSystemInfo = None, p_includeWorkspaceInfo = None,
      p_includeProcessInfo = None, p_includeExtensions = None,
      p_includeSearchedExtensions = None, p_includeSettingsSearchDetails = None,
      p_numberOfThemeExtesions = None, p_allExtensions = None,
      p_enabledNonThemeExtesions = None, p_extensionsDisabled = None,
      p_fileOnExtension = None, p_selectedExtension = None,
      p_actualSearchResults = None, p_query = None, p_filterResultCount = None\<rparr>"

subsection \<open>JavaScript primitives the class uses\<close>

text \<open>What \<open>Object.assign\<close> does to one property: a key of the source overwrites.\<close>

fun overwrite :: "'a \<Rightarrow> 'a option \<Rightarrow> 'a" where
  "overwrite old None = old"
| "overwrite old (Some v) = v"

text \<open>\<open>Object.assign(target, source)\<close> on the two record types.\<close>

definition assign :: "IssueReporterData \<Rightarrow> PartialData \<Rightarrow> IssueReporterData" where
  "assign t s =
     \<lparr>issueType = overwrite (issueType t) (p_issueType s),
      issueDescription = overwrite (issueDescription t) (p_issueDescription s),
      versionInfo = overwrite (versionInfo t) (p_versionInfo s),
      systemInfo = overwrite (systemInfo t) (p_systemInfo s),
      processInfo = overwrite (processInfo t) (p_processInfo s),
      workspaceInfo = overwrite (workspaceInfo t) (p_workspaceInfo s),
      includeSystemInfo = overwrite (includeSystemInfo t) (p_includeSystemInfo s),
      includeWorkspaceInfo = overwrite (includeWorkspaceInfo t) (p_includeWorkspaceInfo s),
      includeProcessInfo = overwrite (includeProcessInfo t) (p_includeProcessInfo s),
      includeExtensions = overwrite (includeExtensions t) (p_includeExtensions s),
      includeSearchedExtensions =
        overwrite (includeSearchedExtensions t) (p_includeSearchedExtensions s),
      includeSettingsSearchDetails =
        overwrite (includeSettingsSearchDetails t) (p_includeSettingsSearchDetails s),
      numberOfThemeExtesions =
        overwrite (numberOfThemeExtesions t) (p_numberOfThemeExtesions s),
      allExtensions = overwrite (allExtensions t) (p_allExtensions s),
      enabledNonThemeExtesions =
        overwrite (enabledNonThemeExtesions t) (p_enabledNonThemeExtesions s),
      extensionsDisabled = overwrite (extensionsDisabled t) (p_extensionsDisabled s),
      fileOnExtension = overwrite (fileOnExtension t) (p_fileOnExtension s),
      selectedExtension = overwrite (selectedExtension t) (p_selectedExtension s),
      actualSearchResults = overwrite (actualSearchResults t) (p_actualSearchResults s),
      query = overwrite (query t) (p_query s),
      filterResultCount = overwrite (filterResultCount t) (p_filterResultCount s)\<rparr>"

text \<open>A template literal prints an absent string as the nine letters \<open>undefined\<close>.\<close>

fun interpolate :: "string option \<Rightarrow> string" where
  "interpolate None = ''undefined''"
| "interpolate (Some s) = s"

text \<open>Decimal rendering of a number that is an integer.\<close>

definition digit :: "nat \<Rightarrow> char" where
  "digit n = ''0123456789'' ! n"

fun showNat :: "nat \<Rightarrow> string" where
  "showNat n = (if n < 10 then [digit n] else showNat (n div 10) @ [digit (n mod 10)])"

definition showInt :: "int \<Rightarrow> string" where
  "showInt i = (if i < 0 then CHR ''-'' # showNat (nat (- i)) else showNat (nat i))"

text \<open>\<open>Array.prototype.join\<close> on strings.\<close>

fun join :: "string \<Rightarrow> string list \<Rightarrow> string" where
  "join sep [] = []"
| "join sep [x] = x"
| "join sep (x # y # ys) = x @ sep @ join sep (y # ys)"

text \<open>Truthiness of an optional boolean and of an optional number.\<close>

fun truthyBool :: "bool option \<Rightarrow> bool" where
  "truthyBool None = False"
| "truthyBool (Some b) = b"

fun truthyNumber :: "int option \<Rightarrow> bool" where
  "truthyNumber None = False"
| "truthyNumber (Some n) = (n \<noteq> 0)"

subsection \<open>The class\<close>

text \<open>
  The constructor. \<open>defaultData\<close> has eight keys; every other field is absent from it.
  An object passed as \<open>initialData\<close> is truthy whatever its keys.
\<close>

definition defaultData :: IssueReporterData where
  "defaultData =
     \<lparr>issueType = Bug, issueDescription = None, versionInfo = None, systemInfo = None,
      processInfo = None, workspaceInfo = None,
      includeSystemInfo = True, includeWorkspaceInfo = True, includeProcessInfo = True,
      includeExtensions = True, includeSearchedExtensions = True,
      includeSettingsSearchDetails = True,
      numberOfThemeExtesions = None, allExtensions = [],
      enabledNonThemeExtesions = None, extensionsDisabled = None, fileOnExtension = None,
      selectedExtension = None, actualSearchResults = None, query = None,
      filterResultCount = None\<rparr>"


definition getData :: "IssueReporterData \<Rightarrow> IssueReporterData" where
  "getData d = d"

definition update :: "IssueReporterData \<Rightarrow> PartialData \<Rightarrow> IssueReporterData" where
  "update d newData = assign d newData"

text \<open>
  \<open>getRemoteOSes\<close>: the length of \<open>remoteData\<close> is truthy when it is not zero.
\<close>

definition remoteOSLine :: "RemoteDiagnostic \<Rightarrow> string" where
  "remoteOSLine remote =
     (if isRemoteDiagnosticError remote then errorMessage remote
      else ''Remote OS version: '' @ MachineInfo.os (machineInfo remote))"

definition getRemoteOSes :: "IssueReporterData \<Rightarrow> string" where
  "getRemoteOSes d =
     (case systemInfo d of
        Some si \<Rightarrow>
          if length (remoteData si) \<noteq> 0
          then join ''\<newline>'' (map remoteOSLine (remoteData si)) @ ''\<newline>''
          else ''''
      | None \<Rightarrow> '''')"

text \<open>
  The method \<open>fileOnExtension()\<close>, renamed because the record has a field of that name.
  It returns \<open>boolean | undefined\<close>: \<open>a && b\<close> is \<open>b\<close> when \<open>a\<close> is true and \<open>false\<close>
  otherwise.
\<close>

definition fileOnExtension_method :: "IssueReporterData \<Rightarrow> bool option" where
  "fileOnExtension_method d =
     (let fileOnExtensionSupported =
            (issueType d = Bug \<or> issueType d = PerformanceIssue
             \<or> issueType d = FeatureRequest)
      in if fileOnExtensionSupported then fileOnExtension d else Some False)"

definition getExtensionVersion :: "IssueReporterData \<Rightarrow> string" where
  "getExtensionVersion d =
     (if truthyBool (fileOnExtension_method d) \<and> selectedExtension d \<noteq> None
      then ''\<newline>Extension version: '' @ version (the (selectedExtension d))
      else '''')"

definition getIssueTypeTitle :: "IssueReporterData \<Rightarrow> string" where
  "getIssueTypeTitle d =
     (if issueType d = Bug then ''Bug''
      else if issueType d = PerformanceIssue then ''Performance Issue''
      else ''Feature Request'')"

text \<open>\<open>generateSystemInfoMd\<close>: the \<open>forEach\<close> over \<open>remoteData\<close> is a left fold on \<open>md\<close>.\<close>

definition gpuStatusLine :: "(string \<times> string) list \<Rightarrow> string \<Rightarrow> string" where
  "gpuStatusLine g key = key @ '': '' @ interpolate (map_of g key)"

definition remoteSection :: "string \<Rightarrow> RemoteDiagnostic \<Rightarrow> string" where
  "remoteSection md remote =
     (if isRemoteDiagnosticError remote
      then md @ ''\<newline>\<newline>'' @ errorMessage remote
      else md @ ''\<newline>\<newline>|Item|Value|\<newline>|---|---|\<newline>|Remote|''
        @ hostName remote
        @ ''|\<newline>|OS|'' @ MachineInfo.os (machineInfo remote)
        @ ''|\<newline>|CPUs|'' @ MachineInfo.cpus (machineInfo remote)
        @ ''|\<newline>|Memory (System)|'' @ MachineInfo.memory (machineInfo remote)
        @ ''|\<newline>|VM|'' @ MachineInfo.vmHint (machineInfo remote) @ ''|'')"

definition linuxEnvRows :: "LinuxEnv \<Rightarrow> string" where
  "linuxEnvRows e =
     ''\<newline>|DESKTOP_SESSION|'' @ desktopSession e
     @ ''|\<newline>|XDG_CURRENT_DESKTOP|'' @ xdgCurrentDesktop e
     @ ''|\<newline>|XDG_SESSION_DESKTOP|'' @ xdgSessionDesktop e
     @ ''|\<newline>|XDG_SESSION_TYPE|'' @ xdgSessionType e @ ''|''"

definition generateSystemInfoMd :: "IssueReporterData \<Rightarrow> string" where
  "generateSystemInfoMd d =
     (let md = ''<details>\<newline><summary>System Info</summary>\<newline>\<newline>|Item|Value|\<newline>|---|---|\<newline>'';
          md = (case systemInfo d of
                  None \<Rightarrow> md
                | Some si \<Rightarrow>
                    (let md = md @ ''|CPUs|'' @ SystemInfo.cpus si
                           @ ''|\<newline>|GPU Status|''
                           @ join ''<br>''
                               (map (gpuStatusLine (gpuStatus si)) (map fst (gpuStatus si)))
                           @ ''|\<newline>|Load (avg)|'' @ load si
                           @ ''|\<newline>|Memory (System)|'' @ SystemInfo.memory si
                           @ ''|\<newline>|Process Argv|'' @ processArgs si
                           @ ''|\<newline>|Screen Reader|'' @ screenReader si
                           @ ''|\<newline>|VM|'' @ SystemInfo.vmHint si @ ''|'';
                         md = (case linuxEnv si of
                                 None \<Rightarrow> md
                               | Some e \<Rightarrow> md @ linuxEnvRows e)
                     in foldl remoteSection md (remoteData si)))
      in md @ ''\<newline></details>'')"

definition generateProcessInfoMd :: "IssueReporterData \<Rightarrow> string" where
  "generateProcessInfoMd d =
     ''<details>\<newline><summary>Process Info</summary>\<newline>\<newline>```\<newline>''
     @ interpolate (processInfo d)
     @ ''\<newline>```\<newline>\<newline></details>\<newline>''"

definition generateWorkspaceInfoMd :: "IssueReporterData \<Rightarrow> string" where
  "generateWorkspaceInfoMd d =
     ''<details>\<newline><summary>Workspace Info</summary>\<newline>\<newline>```\<newline>''
     @ interpolate (workspaceInfo d)
     @ '';\<newline>```\<newline>\<newline></details>\<newline>''"

text \<open>
  \<open>generateExtensionsMd\<close>: \<open>substr(0, 3)\<close> keeps the first three code units; an array,
  empty or not, is truthy, so \<open>!enabledNonThemeExtesions\<close> holds only for \<open>undefined\<close>.
\<close>

definition themeExclusionStr :: "IssueReporterData \<Rightarrow> string" where
  "themeExclusionStr d =
     (if truthyNumber (numberOfThemeExtesions d)
      then ''\<newline>('' @ showInt (the (numberOfThemeExtesions d))
           @ '' theme extensions excluded)''
      else '''')"

definition extensionRow :: "IssueReporterExtensionData \<Rightarrow> string" where
  "extensionRow e = name e @ ''|'' @ take 3 (publisher e) @ ''|'' @ version e"

definition tableHeader :: string where
  "tableHeader = ''Extension|Author (truncated)|Version\<newline>---|---|---''"

definition generateExtensionsMd :: "IssueReporterData \<Rightarrow> string" where
  "generateExtensionsMd d =
     (if truthyBool (extensionsDisabled d) then ''Extensions disabled''
      else case enabledNonThemeExtesions d of
        None \<Rightarrow> ''Extensions: none'' @ themeExclusionStr d
      | Some es \<Rightarrow>
          (let table = join ''\<newline>'' (map extensionRow es)
           in ''<details><summary>Extensions ('' @ showNat (length es)
              @ '')</summary>\<newline>\<newline>'' @ tableHeader @ ''\<newline>'' @ table
              @ ''\<newline>'' @ themeExclusionStr d @ ''\<newline>\<newline></details>''))"

text \<open>\<open>getInfos\<close>: three guarded blocks of appends to \<open>info\<close>, in the source's order.\<close>

definition getInfos :: "IssueReporterData \<Rightarrow> string" where
  "getInfos d =
     (let info = '''';
          info = (if issueType d = Bug \<or> issueType d = PerformanceIssue
                  then (if includeSystemInfo d \<and> systemInfo d \<noteq> None
                        then info @ generateSystemInfoMd d else info)
                  else info);
          info = (if issueType d = PerformanceIssue
                  then (let info = (if includeProcessInfo d
                                    then info @ generateProcessInfoMd d else info)
                        in if includeWorkspaceInfo d
                           then info @ generateWorkspaceInfoMd d else info)
                  else info);
          info = (if issueType d = Bug \<or> issueType d = PerformanceIssue
                  then (if \<not> truthyBool (fileOnExtension d) \<and> includeExtensions d
                        then info @ generateExtensionsMd d else info)
                  else info)
      in info)"

text \<open>
  \<open>serialize\<close>: \<open>versionInfo && versionInfo.vscodeVersion\<close> is \<open>undefined\<close> when
  \<open>versionInfo\<close> is, and the property otherwise.
\<close>

definition serialize :: "IssueReporterData \<Rightarrow> string" where
  "serialize d =
     ''\<newline>Issue Type: <b>'' @ getIssueTypeTitle d @ ''</b>\<newline>\<newline>''
     @ interpolate (issueDescription d) @ ''\<newline>''
     @ getExtensionVersion d
     @ ''\<newline>VS Code version: '' @ interpolate (map_option vscodeVersion (versionInfo d))
     @ ''\<newline>OS version: '' @ interpolate (map_option VersionInfo.os (versionInfo d))
     @ ''\<newline>'' @ getRemoteOSes d
     @ ''\<newline>'' @ getInfos d
     @ ''\<newline><!-- generated by issue reporter -->''"

subsection \<open>Reference rendering\<close>

text \<open>
  The shape the specification gives to the process and workspace sections: a collapsible
  block with a title, whose body is one code-fenced region. This definition follows the
  specification's words; the two generators of the source are compared with it below.
\<close>

definition collapsibleFenced :: "string \<Rightarrow> string \<Rightarrow> string" where
  "collapsibleFenced title body =
     ''<details>\<newline><summary>'' @ title @ ''</summary>\<newline>\<newline>```\<newline>'' @ body
     @ ''\<newline>```\<newline>\<newline></details>\<newline>''"

section \<open>Properties\<close>

subsection \<open>Where a text of the output comes from\<close>

text \<open>
  \<open>serialize\<close> joins ten pieces with line breaks: four fixed lines and six interpolated
  texts. A text without a line break that occurs in the output therefore occurs inside
  one of the pieces.
\<close>

lemma sublist_across_separator:
  assumes "sublist n (a @ x # b)" and "x \<notin> set n"
  shows "sublist n a \<or> sublist n b"
proof -
  from assms(1) consider "sublist n a" | "sublist n (x # b)"
    | xs1 xs2 where "n = xs1 @ xs2" "suffix xs1 a" "prefix xs2 (x # b)"
    unfolding sublist_append by blast
  then show ?thesis
  proof cases
    case 1
    then show ?thesis by simp
  next
    case 2
    then have "prefix n (x # b) \<or> sublist n b"
      by (simp add: sublist_Cons_right)
    moreover have "n = []" if "prefix n (x # b)"
      using that assms(2) by (cases n) auto
    ultimately show ?thesis by auto
  next
    case 3
    have "xs2 = []"
      using 3(1,3) assms(2) by (cases xs2) auto
    with 3 show ?thesis by auto
  qed
qed

lemma sublist_join_piece:
  assumes "sublist n (join [x] ls)" and "x \<notin> set n" and "n \<noteq> []"
  shows "\<exists>l \<in> set ls. sublist n l"
  using assms
proof (induction "[x]" ls rule: join.induct)
  case 1
  then show ?case by simp
next
  case (2 l)
  then show ?case by simp
next
  case (3 l m ms)
  from 3(2) have "sublist n (l @ x # join [x] (m # ms))"
    by simp
  then have "sublist n l \<or> sublist n (join [x] (m # ms))"
    using 3(3) by (rule sublist_across_separator)
  then show ?case
    using 3(1) [OF _ 3(3) 3(4)] by auto
qed

lemma sublist_after_literal:
  assumes "sublist (c # r) (lit @ v)" and "c \<notin> set lit"
  shows "sublist (c # r) v"
proof -
  from assms(1) consider "sublist (c # r) lit" | "sublist (c # r) v"
    | xs1 xs2 where "c # r = xs1 @ xs2" "suffix xs1 lit" "prefix xs2 v"
    unfolding sublist_append by blast
  then show ?thesis
  proof cases
    case 1
    then have "c \<in> set lit"
      using set_mono_sublist by fastforce
    with assms(2) show ?thesis by simp
  next
    case 2
    then show ?thesis .
  next
    case 3
    show ?thesis
    proof (cases xs1)
      case Nil
      with 3 show ?thesis by auto
    next
      case (Cons y ys)
      with 3(1) have "y = c" by simp
      with Cons 3(2) have "c \<in> set lit"
        using set_mono_suffix by fastforce
      with assms(2) show ?thesis by simp
    qed
  qed
qed

lemma serialize_lines:
  "serialize d =
     join ''\<newline>''
       ['''',
        ''Issue Type: <b>'' @ getIssueTypeTitle d @ ''</b>'',
        '''',
        interpolate (issueDescription d),
        getExtensionVersion d,
        ''VS Code version: '' @ interpolate (map_option vscodeVersion (versionInfo d)),
        ''OS version: '' @ interpolate (map_option VersionInfo.os (versionInfo d)),
        getRemoteOSes d,
        getInfos d,
        ''<!-- generated by issue reporter -->'']"
  by (simp add: serialize_def)

lemma serialize_text_origin:
  assumes "sublist n (serialize d)" and "CHR ''\<newline>'' \<notin> set n" and "n \<noteq> []"
  shows "sublist n (''Issue Type: <b>'' @ getIssueTypeTitle d @ ''</b>'')
       \<or> sublist n (interpolate (issueDescription d))
       \<or> sublist n (getExtensionVersion d)
       \<or> sublist n (''VS Code version: ''
                      @ interpolate (map_option vscodeVersion (versionInfo d)))
       \<or> sublist n (''OS version: ''
                      @ interpolate (map_option VersionInfo.os (versionInfo d)))
       \<or> sublist n (getRemoteOSes d)
       \<or> sublist n (getInfos d)
       \<or> sublist n ''<!-- generated by issue reporter -->''"
proof -
  from assms(1) have "sublist n (join [CHR ''\<newline>'']
       ['''',
        ''Issue Type: <b>'' @ getIssueTypeTitle d @ ''</b>'',
        '''',
        interpolate (issueDescription d),
        getExtensionVersion d,
        ''VS Code version: '' @ interpolate (map_option vscodeVersion (versionInfo d)),
        ''OS version: '' @ interpolate (map_option VersionInfo.os (versionInfo d)),
        getRemoteOSes d,
        getInfos d,
        ''<!-- generated by issue reporter -->''])"
    by (simp only: serialize_lines)
  from sublist_join_piece [OF this assms(2) assms(3)] assms(3)
  show ?thesis
    by (simp del: join.simps)
qed

text \<open>
  Outside the extension-version place, \<open>serialize\<close> itself never writes
  \<open>Extension version: \<close>: when the place is empty, that text is in the output only if
  one of the other interpolated texts holds it.
\<close>

lemma title_has_no_extension_version:
  "\<not> sublist ''Extension version: '' (''Issue Type: <b>'' @ getIssueTypeTitle d @ ''</b>'')"
proof (cases "issueType d")
  case Bug
  have "\<not> sublist ''Extension version: '' ''Issue Type: <b>Bug</b>''" by code_simp
  with Bug show ?thesis by (simp add: getIssueTypeTitle_def)
next
  case PerformanceIssue
  have "\<not> sublist ''Extension version: '' ''Issue Type: <b>Performance Issue</b>''"
    by code_simp
  with PerformanceIssue show ?thesis by (simp add: getIssueTypeTitle_def)
next
  case FeatureRequest
  have "\<not> sublist ''Extension version: '' ''Issue Type: <b>Feature Request</b>''"
    by code_simp
  with FeatureRequest show ?thesis by (simp add: getIssueTypeTitle_def)
qed

lemma extension_version_text_origin:
  assumes "sublist ''Extension version: '' (serialize d)"
    and "\<not> (fileOnExtension_method d = Some True \<and> selectedExtension d \<noteq> None)"
  shows "sublist ''Extension version: '' (interpolate (issueDescription d))
       \<or> sublist ''Extension version: ''
            (interpolate (map_option vscodeVersion (versionInfo d)))
       \<or> sublist ''Extension version: ''
            (interpolate (map_option VersionInfo.os (versionInfo d)))
       \<or> sublist ''Extension version: '' (getRemoteOSes d)
       \<or> sublist ''Extension version: '' (getInfos d)"
proof -
  let ?n = "''Extension version: ''"
  have ev: "getExtensionVersion d = ''''"
    using assms(2)
    by (cases "fileOnExtension_method d") (auto simp add: getExtensionVersion_def)
  have closing: "\<not> sublist ?n ''<!-- generated by issue reporter -->''"
    by code_simp
  have vs: "sublist ?n v" if "sublist ?n (''VS Code version: '' @ v)" for v
    using that by (rule sublist_after_literal) simp
  have os: "sublist ?n v" if "sublist ?n (''OS version: '' @ v)" for v
    using that by (rule sublist_after_literal) simp
  have "CHR ''\<newline>'' \<notin> set ?n" and "?n \<noteq> []"
    by simp_all
  from serialize_text_origin [OF assms(1) this]
  consider "sublist ?n (''Issue Type: <b>'' @ getIssueTypeTitle d @ ''</b>'')"
    | "sublist ?n (interpolate (issueDescription d))"
    | "sublist ?n (getExtensionVersion d)"
    | "sublist ?n (''VS Code version: ''
                      @ interpolate (map_option vscodeVersion (versionInfo d)))"
    | "sublist ?n (''OS version: ''
                      @ interpolate (map_option VersionInfo.os (versionInfo d)))"
    | "sublist ?n (getRemoteOSes d)"
    | "sublist ?n (getInfos d)"
    | "sublist ?n ''<!-- generated by issue reporter -->''"
    by blast
  then show ?thesis
  proof cases
    case 1
    then show ?thesis using title_has_no_extension_version [of d] by blast
  next
    case 2
    then show ?thesis by blast
  next
    case 3
    then show ?thesis unfolding ev by simp
  next
    case 4
    then show ?thesis using vs by blast
  next
    case 5
    then show ?thesis using os by blast
  next
    case 6
    then show ?thesis by blast
  next
    case 7
    then show ?thesis by blast
  next
    case 8
    then show ?thesis using closing by blast
  qed
qed

text \<open>
  For a feature request the info piece is empty: every text of the output is in a fixed
  line, the description, the extension-version place, a version line or the remote OS
  lines.
\<close>

lemma featureRequest_text_origin:
  assumes "issueType d = FeatureRequest"
    and "sublist n (serialize d)" and "CHR ''\<newline>'' \<notin> set n" and "n \<noteq> []"
  shows "sublist n ''Issue Type: <b>Feature Request</b>''
       \<or> sublist n (interpolate (issueDescription d))
       \<or> sublist n (getExtensionVersion d)
       \<or> sublist n (''VS Code version: ''
                      @ interpolate (map_option vscodeVersion (versionInfo d)))
       \<or> sublist n (''OS version: ''
                      @ interpolate (map_option VersionInfo.os (versionInfo d)))
       \<or> sublist n (getRemoteOSes d)
       \<or> sublist n ''<!-- generated by issue reporter -->''"
proof -
  have infos: "getInfos d = ''''"
    using assms(1) by (simp add: getInfos_def)
  have title: "''Issue Type: <b>'' @ getIssueTypeTitle d @ ''</b>''
      = ''Issue Type: <b>Feature Request</b>''"
    using assms(1) by (simp add: getIssueTypeTitle_def)
  have "\<not> sublist n (getInfos d)"
    using assms(4) by (simp add: infos)
  with serialize_text_origin [OF assms(2) assms(3) assms(4)]
  show ?thesis
    unfolding title by blast
qed

subsection \<open>Process and workspace sections\<close>

lemma collapsibleFenced_body_inject:
  "collapsibleFenced title b = collapsibleFenced title b' \<longleftrightarrow> b = b'"
  by (simp add: collapsibleFenced_def)

text \<open>
  The process section is the reference block around the raw text, for every record; an
  absent \<open>processInfo\<close> prints as \<open>undefined\<close>.
\<close>

lemma generateProcessInfoMd_fenced:
  "generateProcessInfoMd d = collapsibleFenced ''Process Info'' (interpolate (processInfo d))"
  by (simp add: generateProcessInfoMd_def collapsibleFenced_def)

text \<open>The workspace section is the reference block around the raw text and a semicolon.\<close>

lemma generateWorkspaceInfoMd_fenced:
  "generateWorkspaceInfoMd d
     = collapsibleFenced ''Workspace Info'' (interpolate (workspaceInfo d) @ '';'')"
  by (simp add: generateWorkspaceInfoMd_def collapsibleFenced_def)

text \<open>A performance issue that includes process information carries the process block.\<close>

lemma processInfo_block_in_serialize:
  assumes "issueType d = PerformanceIssue" and "includeProcessInfo d"
  shows "sublist (collapsibleFenced ''Process Info'' (interpolate (processInfo d)))
           (serialize d)"
proof -
  let ?sys = "if includeSystemInfo d \<and> systemInfo d \<noteq> None
              then generateSystemInfoMd d else ''''"
  let ?ws = "if includeWorkspaceInfo d then generateWorkspaceInfoMd d else ''''"
  let ?ext = "if \<not> truthyBool (fileOnExtension d) \<and> includeExtensions d
              then generateExtensionsMd d else ''''"
  have "getInfos d = ?sys @ generateProcessInfoMd d @ (?ws @ ?ext)"
    using assms by (auto simp add: getInfos_def)
  then have "\<exists>ps ss. serialize d = ps @ generateProcessInfoMd d @ ss"
    unfolding serialize_def by (metis append.assoc)
  then show ?thesis
    by (simp add: sublist_def generateProcessInfoMd_fenced)
qed

text \<open>
  C1. The claim: \<open>generateProcessInfoMd\<close> and \<open>generateWorkspaceInfoMd\<close> each return a
  collapsible block whose code-fenced body is exactly the raw text. It holds for the
  process section (\<open>generateProcessInfoMd_fenced\<close> and
  \<open>processInfo_block_in_serialize\<close> above). It fails for the workspace section: the
  template of \<open>generateWorkspaceInfoMd\<close> has a semicolon after the interpolation, inside
  the fence. For a performance issue with \<open>includeWorkspaceInfo\<close> true and
  \<open>workspaceInfo = "trace-data"\<close> the fenced body is \<open>trace-data;\<close>, and the serialized
  output contains no workspace block whose body is \<open>trace-data\<close>.
\<close>

theorem workspaceInfo_body_has_semicolon:
  "includeWorkspaceInfo
     (defaultData\<lparr>issueType := PerformanceIssue, workspaceInfo := Some ''trace-data''\<rparr>)
   \<and> generateWorkspaceInfoMd
     (defaultData\<lparr>issueType := PerformanceIssue, workspaceInfo := Some ''trace-data''\<rparr>)
     = ''<details>\<newline><summary>Workspace Info</summary>\<newline>\<newline>```\<newline>trace-data;\<newline>```\<newline>\<newline></details>\<newline>''
   \<and> generateWorkspaceInfoMd
     (defaultData\<lparr>issueType := PerformanceIssue, workspaceInfo := Some ''trace-data''\<rparr>)
     \<noteq> collapsibleFenced ''Workspace Info'' ''trace-data''
   \<and> sublist (collapsibleFenced ''Workspace Info'' ''trace-data;'')
       (serialize
         (defaultData\<lparr>issueType := PerformanceIssue, workspaceInfo := Some ''trace-data''\<rparr>))
   \<and> \<not> sublist (collapsibleFenced ''Workspace Info'' ''trace-data'')
       (serialize
         (defaultData\<lparr>issueType := PerformanceIssue, workspaceInfo := Some ''trace-data''\<rparr>))"
  by code_simp

subsection \<open>The extension version line\<close>



subsection \<open>Feature requests\<close>



subsection \<open>Construction and update\<close>


text \<open>
  C5. \<open>update\<close> with a partial that has the single key \<open>x\<close>, of value \<open>v\<close>: afterwards
  \<open>getData().x\<close> is \<open>v\<close>, and the record is the old record with \<open>x\<close> set to \<open>v\<close>, every
  other field as before. One pair of conjuncts for each of the twenty-one fields.
\<close>

theorem update_single_field:
  "issueType (getData (update d (noKeys\<lparr>p_issueType := Some v1\<rparr>))) = v1
   \<and> getData (update d (noKeys\<lparr>p_issueType := Some v1\<rparr>)) = d\<lparr>issueType := v1\<rparr>
   \<and> issueDescription (getData (update d (noKeys\<lparr>p_issueDescription := Some v2\<rparr>))) = v2
   \<and> getData (update d (noKeys\<lparr>p_issueDescription := Some v2\<rparr>)) = d\<lparr>issueDescription := v2\<rparr>
   \<and> versionInfo (getData (update d (noKeys\<lparr>p_versionInfo := Some v3\<rparr>))) = v3
   \<and> getData (update d (noKeys\<lparr>p_versionInfo := Some v3\<rparr>)) = d\<lparr>versionInfo := v3\<rparr>
   \<and> systemInfo (getData (update d (noKeys\<lparr>p_systemInfo := Some v4\<rparr>))) = v4
   \<and> getData (update d (noKeys\<lparr>p_systemInfo := Some v4\<rparr>)) = d\<lparr>systemInfo := v4\<rparr>
   \<and> processInfo (getData (update d (noKeys\<lparr>p_processInfo := Some v5\<rparr>))) = v5
   \<and> getData (update d (noKeys\<lparr>p_processInfo := Some v5\<rparr>)) = d\<lparr>processInfo := v5\<rparr>
   \<and> workspaceInfo (getData (update d (noKeys\<lparr>p_workspaceInfo := Some v6\<rparr>))) = v6
   \<and> getData (update d (noKeys\<lparr>p_workspaceInfo := Some v6\<rparr>)) = d\<lparr>workspaceInfo := v6\<rparr>
   \<and> includeSystemInfo (getData (update d (noKeys\<lparr>p_includeSystemInfo := Some v7\<rparr>))) = v7
   \<and> getData (update d (noKeys\<lparr>p_includeSystemInfo := Some v7\<rparr>)) = d\<lparr>includeSystemInfo := v7\<rparr>
   \<and> includeWorkspaceInfo (getData (update d (noKeys\<lparr>p_includeWorkspaceInfo := Some v8\<rparr>))) = v8
   \<and> getData (update d (noKeys\<lparr>p_includeWorkspaceInfo := Some v8\<rparr>)) = d\<lparr>includeWorkspaceInfo := v8\<rparr>
   \<and> includeProcessInfo (getData (update d (noKeys\<lparr>p_includeProcessInfo := Some v9\<rparr>))) = v9
   \<and> getData (update d (noKeys\<lparr>p_includeProcessInfo := Some v9\<rparr>)) = d\<lparr>includeProcessInfo := v9\<rparr>
   \<and> includeExtensions (getData (update d (noKeys\<lparr>p_includeExtensions := Some v10\<rparr>))) = v10
   \<and> getData (update d (noKeys\<lparr>p_includeExtensions := Some v10\<rparr>)) = d\<lparr>includeExtensions := v10\<rparr>
   \<and> includeSearchedExtensions (getData (update d (noKeys\<lparr>p_includeSearchedExtensions := Some v11\<rparr>))) = v11
   \<and> getData (update d (noKeys\<lparr>p_includeSearchedExtensions := Some v11\<rparr>)) = d\<lparr>includeSearchedExtensions := v11\<rparr>
   \<and> includeSettingsSearchDetails (getData (update d (noKeys\<lparr>p_includeSettingsSearchDetails := Some v12\<rparr>))) = v12
   \<and> getData (update d (noKeys\<lparr>p_includeSettingsSearchDetails := Some v12\<rparr>)) = d\<lparr>includeSettingsSearchDetails := v12\<rparr>
   \<and> numberOfThemeExtesions (getData (update d (noKeys\<lparr>p_numberOfThemeExtesions := Some v13\<rparr>))) = v13
   \<and> getData (update d (noKeys\<lparr>p_numberOfThemeExtesions := Some v13\<rparr>)) = d\<lparr>numberOfThemeExtesions := v13\<rparr>
   \<and> allExtensions (getData (update d (noKeys\<lparr>p_allExtensions := Some v14\<rparr>))) = v14
   \<and> getData (update d (noKeys\<lparr>p_allExtensions := Some v14\<rparr>)) = d\<lparr>allExtensions := v14\<rparr>
   \<and> enabledNonThemeExtesions (getData (update d (noKeys\<lparr>p_enabledNonThemeExtesions := Some v15\<rparr>))) = v15
   \<and> getData (update d (noKeys\<lparr>p_enabledNonThemeExtesions := Some v15\<rparr>)) = d\<lparr>enabledNonThemeExtesions := v15\<rparr>
   \<and> extensionsDisabled (getData (update d (noKeys\<lparr>p_extensionsDisabled := Some v16\<rparr>))) = v16
   \<and> getData (update d (noKeys\<lparr>p_extensionsDisabled := Some v16\<rparr>)) = d\<lparr>extensionsDisabled := v16\<rparr>
   \<and> fileOnExtension (getData (update d (noKeys\<lparr>p_fileOnExtension := Some v17\<rparr>))) = v17
   \<and> getData (update d (noKeys\<lparr>p_fileOnExtension := Some v17\<rparr>)) = d\<lparr>fileOnExtension := v17\<rparr>
   \<and> selectedExtension (getData (update d (noKeys\<lparr>p_selectedExtension := Some v18\<rparr>))) = v18
   \<and> getData (update d (noKeys\<lparr>p_selectedExtension := Some v18\<rparr>)) = d\<lparr>selectedExtension := v18\<rparr>
   \<and> actualSearchResults (getData (update d (noKeys\<lparr>p_actualSearchResults := Some v19\<rparr>))) = v19
   \<and> getData (update d (noKeys\<lparr>p_actualSearchResults := Some v19\<rparr>)) = d\<lparr>actualSearchResults := v19\<rparr>
   \<and> query (getData (update d (noKeys\<lparr>p_query := Some v20\<rparr>))) = v20
   \<and> getData (update d (noKeys\<lparr>p_query := Some v20\<rparr>)) = d\<lparr>query := v20\<rparr>
   \<and> filterResultCount (getData (update d (noKeys\<lparr>p_filterResultCount := Some v21\<rparr>))) = v21
   \<and> getData (update d (noKeys\<lparr>p_filterResultCount := Some v21\<rparr>)) = d\<lparr>filterResultCount := v21\<rparr>"
  by (simp add: getData_def update_def assign_def noKeys_def)

subsection \<open>The extensions section\<close>

text \<open>
  C6, as the claim states it, fails where \<open>extensionsDisabled\<close> is true: the first test of
  \<open>generateExtensionsMd\<close> returns before the table is built. With the inputs of the
  specification's test and \<open>extensionsDisabled = true\<close> the result has neither the row
  nor the trailing text.
\<close>

theorem extensions_table_counterexample:
  "enabledNonThemeExtesions
     (defaultData\<lparr>extensionsDisabled := Some True, numberOfThemeExtesions := Some 2,
        enabledNonThemeExtesions :=
          Some [\<lparr>name = ''Foo'', publisher = ''PublisherName'', version = ''0.1''\<rparr>]\<rparr>)
     = Some [\<lparr>name = ''Foo'', publisher = ''PublisherName'', version = ''0.1''\<rparr>]
   \<and> generateExtensionsMd
     (defaultData\<lparr>extensionsDisabled := Some True, numberOfThemeExtesions := Some 2,
        enabledNonThemeExtesions :=
          Some [\<lparr>name = ''Foo'', publisher = ''PublisherName'', version = ''0.1''\<rparr>]\<rparr>)
     = ''Extensions disabled''
   \<and> \<not> sublist ''Foo|Pub|0.1''
     (generateExtensionsMd
       (defaultData\<lparr>extensionsDisabled := Some True, numberOfThemeExtesions := Some 2,
          enabledNonThemeExtesions :=
            Some [\<lparr>name = ''Foo'', publisher = ''PublisherName'', version = ''0.1''\<rparr>]\<rparr>))
   \<and> \<not> sublist ''(2 theme extensions excluded)''
     (generateExtensionsMd
       (defaultData\<lparr>extensionsDisabled := Some True, numberOfThemeExtesions := Some 2,
          enabledNonThemeExtesions :=
            Some [\<lparr>name = ''Foo'', publisher = ''PublisherName'', version = ''0.1''\<rparr>]\<rparr>))"
  by code_simp

text \<open>
  C6, amended: for every record where \<open>extensionsDisabled\<close> is not true and
  \<open>enabledNonThemeExtesions\<close> is present and not empty, \<open>generateExtensionsMd\<close> returns
  the collapsible block titled with the number of extensions, the table header, one row
  \<open>{name}|{first three characters of publisher}|{version}\<close> per extension in sequence
  order, joined by newlines, then a newline and the theme-exclusion suffix, which is a
  newline and \<open>({n} theme extensions excluded)\<close> exactly when \<open>numberOfThemeExtesions\<close> is
  present and not zero, and the empty string otherwise.
\<close>

theorem extensions_table_rows:
  assumes "extensionsDisabled d \<noteq> Some True"
    and "enabledNonThemeExtesions d = Some es"
    and "es \<noteq> []"
  shows "generateExtensionsMd d =
           ''<details><summary>Extensions ('' @ showNat (length es) @ '')</summary>\<newline>\<newline>''
           @ ''Extension|Author (truncated)|Version\<newline>---|---|---\<newline>''
           @ join ''\<newline>''
               (map (\<lambda>e. name e @ ''|'' @ take 3 (publisher e) @ ''|'' @ version e) es)
           @ ''\<newline>''
           @ (case numberOfThemeExtesions d of
                None \<Rightarrow> ''''
              | Some n \<Rightarrow> if n = 0 then ''''
                  else ''\<newline>('' @ showInt n @ '' theme extensions excluded)'')
           @ ''\<newline>\<newline></details>''"
proof -
  have rows: "map extensionRow es
      = map (\<lambda>e. name e @ ''|'' @ take 3 (publisher e) @ ''|'' @ version e) es"
    by (simp add: extensionRow_def)
  have notDisabled: "\<not> truthyBool (extensionsDisabled d)"
    using assms(1) by (cases "extensionsDisabled d") simp_all
  have suffix: "themeExclusionStr d =
      (case numberOfThemeExtesions d of
         None \<Rightarrow> ''''
       | Some n \<Rightarrow> if n = 0 then ''''
           else ''\<newline>('' @ showInt n @ '' theme extensions excluded)'')"
    by (cases "numberOfThemeExtesions d") (simp_all add: themeExclusionStr_def)
  show ?thesis
    using notDisabled assms(2)
    by (simp add: generateExtensionsMd_def tableHeader_def rows suffix)
qed

text \<open>The inputs of the specification's test: row \<open>Foo|Pub|0.1\<close>, two themes excluded.\<close>

theorem extensions_table_rows_witness:
  "extensionsDisabled
     (defaultData\<lparr>numberOfThemeExtesions := Some 2,
        enabledNonThemeExtesions :=
          Some [\<lparr>name = ''Foo'', publisher = ''PublisherName'', version = ''0.1''\<rparr>]\<rparr>)
     \<noteq> Some True
   \<and> generateExtensionsMd
     (defaultData\<lparr>numberOfThemeExtesions := Some 2,
        enabledNonThemeExtesions :=
          Some [\<lparr>name = ''Foo'', publisher = ''PublisherName'', version = ''0.1''\<rparr>]\<rparr>)
     = ''<details><summary>Extensions (1)</summary>\<newline>\<newline>Extension|Author (truncated)|Version\<newline>---|---|---\<newline>Foo|Pub|0.1\<newline>\<newline>(2 theme extensions excluded)\<newline>\<newline></details>''"
  using extensions_table_rows
    [of "defaultData\<lparr>numberOfThemeExtesions := Some 2,
        enabledNonThemeExtesions :=
          Some [\<lparr>name = ''Foo'', publisher = ''PublisherName'', version = ''0.1''\<rparr>]\<rparr>"
        "[\<lparr>name = ''Foo'', publisher = ''PublisherName'', version = ''0.1''\<rparr>]"]
  by (simp add: defaultData_def showInt_def digit_def)

text \<open>
  C7. Where \<open>extensionsDisabled\<close> is true, \<open>generateExtensionsMd\<close> returns the literal
  \<open>Extensions disabled\<close> and nothing else, whatever the other fields hold.
\<close>

theorem extensionsDisabled_literal:
  "extensionsDisabled d = Some True \<Longrightarrow> generateExtensionsMd d = ''Extensions disabled''"
  by (simp add: generateExtensionsMd_def)

theorem extensionsDisabled_literal_witness:
  "extensionsDisabled
     (defaultData\<lparr>extensionsDisabled := Some True, numberOfThemeExtesions := Some 7,
        enabledNonThemeExtesions :=
          Some [\<lparr>name = ''Bar'', publisher = ''Someone'', version = ''2.0''\<rparr>]\<rparr>)
     = Some True
   \<and> generateExtensionsMd
     (defaultData\<lparr>extensionsDisabled := Some True, numberOfThemeExtesions := Some 7,
        enabledNonThemeExtesions :=
          Some [\<lparr>name = ''Bar'', publisher = ''Someone'', version = ''2.0''\<rparr>]\<rparr>)
     = ''Extensions disabled''"
  using extensionsDisabled_literal
    [of "defaultData\<lparr>extensionsDisabled := Some True, numberOfThemeExtesions := Some 7,
        enabledNonThemeExtesions :=
          Some [\<lparr>name = ''Bar'', publisher = ''Someone'', version = ''2.0''\<rparr>]\<rparr>"]
  by simp

text \<open>
  C9. Where \<open>extensionsDisabled\<close> is not true and \<open>enabledNonThemeExtesions\<close> is the empty
  sequence, \<open>generateExtensionsMd\<close> returns the block titled \<open>Extensions (0)\<close> with the
  table header, no row, and the theme-exclusion suffix when there is one. The text
  \<open>Extensions: none\<close> opens the result only when the field is absent.
\<close>

theorem empty_extensions_render_empty_table:
  assumes "extensionsDisabled d \<noteq> Some True"
  shows "(enabledNonThemeExtesions d = Some [] \<longrightarrow>
            generateExtensionsMd d =
              ''<details><summary>Extensions (0)</summary>\<newline>\<newline>''
              @ ''Extension|Author (truncated)|Version\<newline>---|---|---'' @ ''\<newline>''
              @ ''\<newline>''
              @ (case numberOfThemeExtesions d of
                   None \<Rightarrow> ''''
                 | Some n \<Rightarrow> if n = 0 then ''''
                     else ''\<newline>('' @ showInt n @ '' theme extensions excluded)'')
              @ ''\<newline>\<newline></details>'')
         \<and> (prefix ''Extensions: none'' (generateExtensionsMd d)
              \<longleftrightarrow> enabledNonThemeExtesions d = None)"
  using assms
  by (cases "extensionsDisabled d"; cases "numberOfThemeExtesions d";
      cases "enabledNonThemeExtesions d";
      simp add: generateExtensionsMd_def themeExclusionStr_def tableHeader_def digit_def)+

theorem empty_extensions_render_empty_table_witness:
  "extensionsDisabled (defaultData\<lparr>enabledNonThemeExtesions := Some []\<rparr>) \<noteq> Some True
   \<and> enabledNonThemeExtesions (defaultData\<lparr>enabledNonThemeExtesions := Some []\<rparr>) = Some []
   \<and> generateExtensionsMd (defaultData\<lparr>enabledNonThemeExtesions := Some []\<rparr>) =
       ''<details><summary>Extensions (0)</summary>\<newline>\<newline>Extension|Author (truncated)|Version\<newline>---|---|---\<newline>\<newline>\<newline>\<newline></details>''
   \<and> \<not> prefix ''Extensions: none''
         (generateExtensionsMd (defaultData\<lparr>enabledNonThemeExtesions := Some []\<rparr>))"
  using empty_extensions_render_empty_table
    [of "defaultData\<lparr>enabledNonThemeExtesions := Some []\<rparr>"]
  by (simp add: defaultData_def)

subsection \<open>Remote operating systems\<close>

text \<open>
  C8. The remote OS segment: with \<open>systemInfo\<close> present and \<open>remoteData\<close> not empty, one
  line per entry in order, the error message of an error entry and
  \<open>Remote OS version: {machineInfo.os}\<close> of a machine-info entry, joined by newlines and
  followed by one newline; the empty string when \<open>remoteData\<close> is empty or \<open>systemInfo\<close>
  is absent.
\<close>

theorem getRemoteOSes_lines:
  "getRemoteOSes d =
     (case systemInfo d of
        None \<Rightarrow> ''''
      | Some si \<Rightarrow>
          if remoteData si = [] then ''''
          else join ''\<newline>''
                 (map (\<lambda>remote. case remote of
                         RemoteDiagnosticError h msg \<Rightarrow> msg
                       | RemoteDiagnosticInfo h mi \<Rightarrow> ''Remote OS version: '' @ MachineInfo.os mi)
                    (remoteData si))
               @ ''\<newline>'')"
proof -
  have line: "remoteOSLine = (\<lambda>remote. case remote of
        RemoteDiagnosticError h msg \<Rightarrow> msg
      | RemoteDiagnosticInfo h mi \<Rightarrow> ''Remote OS version: '' @ MachineInfo.os mi)"
    by (rule ext) (simp add: remoteOSLine_def split: RemoteDiagnostic.split)
  show ?thesis
    unfolding getRemoteOSes_def line
    by (cases "systemInfo d") simp_all
qed

text \<open>An error entry and a machine-info entry; no entry; no \<open>systemInfo\<close>.\<close>

theorem getRemoteOSes_lines_witness:
  "getRemoteOSes
     (defaultData\<lparr>systemInfo := Some
        \<lparr>cpus = ''c'', gpuStatus = [], load = ''l'', memory = ''m'', processArgs = ''a'',
         screenReader = ''no'', vmHint = ''0%'', linuxEnv = None,
         remoteData =
           [RemoteDiagnosticError ''host1'' ''Unable to connect'',
            RemoteDiagnosticInfo ''host2''
              \<lparr>os = ''Linux x64'', cpus = ''c'', memory = ''m'', vmHint = ''0%''\<rparr>]\<rparr>\<rparr>)
     = ''Unable to connect\<newline>Remote OS version: Linux x64\<newline>''
   \<and> getRemoteOSes (defaultData\<lparr>systemInfo := Some
        \<lparr>cpus = ''c'', gpuStatus = [], load = ''l'', memory = ''m'', processArgs = ''a'',
         screenReader = ''no'', vmHint = ''0%'', linuxEnv = None, remoteData = []\<rparr>\<rparr>) = ''''
   \<and> getRemoteOSes defaultData = ''''"
  using getRemoteOSes_lines
    [of "defaultData\<lparr>systemInfo := Some
        \<lparr>cpus = ''c'', gpuStatus = [], load = ''l'', memory = ''m'', processArgs = ''a'',
         screenReader = ''no'', vmHint = ''0%'', linuxEnv = None,
         remoteData =
           [RemoteDiagnosticError ''host1'' ''Unable to connect'',
            RemoteDiagnosticInfo ''host2''
              \<lparr>os = ''Linux x64'', cpus = ''c'', memory = ''m'', vmHint = ''0%''\<rparr>]\<rparr>\<rparr>"]
    getRemoteOSes_lines
    [of "defaultData\<lparr>systemInfo := Some
        \<lparr>cpus = ''c'', gpuStatus = [], load = ''l'', memory = ''m'', processArgs = ''a'',
         screenReader = ''no'', vmHint = ''0%'', linuxEnv = None, remoteData = []\<rparr>\<rparr>"]
    getRemoteOSes_lines [of defaultData]
  by (simp add: defaultData_def)

subsection \<open>The method \<open>fileOnExtension\<close>\<close>

text \<open>
  C10. Each of the three issue types passes the membership test, so the method returns
  the field as it is: for every record \<open>fileOnExtension()\<close> equals the field
  \<open>fileOnExtension\<close>, and where the field is unset the result is \<open>undefined\<close>, not
  \<open>false\<close>.
\<close>

theorem fileOnExtension_method_is_field:
  "fileOnExtension_method d = fileOnExtension d
   \<and> fileOnExtension_method (d\<lparr>fileOnExtension := None\<rparr>) = None
   \<and> fileOnExtension_method (d\<lparr>fileOnExtension := None\<rparr>) \<noteq> Some False"
  by (cases "issueType d") (simp_all add: fileOnExtension_method_def)

end
